theory Spec2Isabelle
  imports Main "HOL-Library.Sublist"
begin

section \<open>JavaScript values\<close>

text \<open>
  The payloads the pages receive from the backend are typed \<open>any\<close> or by a generic
  parameter (\<open>credential_json\<close>, \<open>connector_specific_config\<close>, the SWR \<open>error\<close>, the
  document sets and personas): they are JSON values, plus \<open>undefined\<close> for an absent
  property. An object is its list of fields. A number is kept as the two things these
  pages can observe of it, so that no floating-point arithmetic is needed: whether it is
  falsy (0, -0 or NaN), and the string ToString gives for it. Every pair of the two is
  admitted, which is more than the numbers there are.
\<close>

datatype jsval =
    JUndefined
  | JNull
  | JBool bool
  | JNum bool string
  | JStr string
  | JArr "jsval list"
  | JObj "(string \<times> jsval) list"

datatype js_error = TypeError | SyntaxError

text \<open>ToBoolean: what \<open>if (v)\<close>, \<open>v ? a : b\<close>, \<open>v && e\<close> and \<open>find\<close> test.\<close>

fun truthy :: "jsval \<Rightarrow> bool" where
  "truthy JUndefined = False"
| "truthy JNull = False"
| "truthy (JBool b) = b"
| "truthy (JNum falsy printed) = (\<not> falsy)"
| "truthy (JStr s) = (s \<noteq> [])"
| "truthy (JArr xs) = True"
| "truthy (JObj fs) = True"

text \<open>
  Property access \<open>v.k\<close>: a TypeError on \<open>undefined\<close> and \<open>null\<close>, the field of an
  object (\<open>undefined\<close> when it has none). On the other values the lookup goes to the
  prototype, which has none of the keys read here (\<open>sf_username\<close>, \<open>sf_client_secret\<close>,
  \<open>requested_objects\<close>).
\<close>

fun get_member :: "jsval \<Rightarrow> string \<Rightarrow> js_error + jsval" where
  "get_member JUndefined k = Inl TypeError"
| "get_member JNull k = Inl TypeError"
| "get_member (JObj fs) k = Inr (case map_of fs k of None \<Rightarrow> JUndefined | Some v \<Rightarrow> v)"
| "get_member v k = Inr JUndefined"

text \<open>Optional chaining \<open>v?.k\<close>: \<open>undefined\<close> on \<open>undefined\<close> and \<open>null\<close>, else \<open>v.k\<close>.\<close>

fun opt_member :: "jsval \<Rightarrow> string \<Rightarrow> js_error + jsval" where
  "opt_member JUndefined k = Inr JUndefined"
| "opt_member JNull k = Inr JUndefined"
| "opt_member v k = get_member v k"

text \<open>\<open>Array.prototype.join\<close> on strings.\<close>

fun array_join :: "string \<Rightarrow> string list \<Rightarrow> string" where
  "array_join sep [] = []"
| "array_join sep [x] = x"
| "array_join sep (x # y # ys) = x @ sep @ array_join sep (y # ys)"

text \<open>
  ToString, as a template literal \<open>`${v}`\<close> applies it. An array prints as its elements
  joined by commas, from the first element on, \<open>undefined\<close> and \<open>null\<close> elements printing
  as the empty string. An object without a \<open>toString\<close> field of its own prints through
  \<open>Object.prototype.toString\<close>; with one, the field's value is a JSON value and not
  callable, no primitive is found and a TypeError is thrown.
\<close>

fun to_string :: "jsval \<Rightarrow> js_error + string"
  and elements_to_strings :: "jsval list \<Rightarrow> js_error + string list" where
  "to_string JUndefined = Inr ''undefined''"
| "to_string JNull = Inr ''null''"
| "to_string (JBool b) = Inr (if b then ''true'' else ''false'')"
| "to_string (JNum falsy printed) = Inr printed"
| "to_string (JStr s) = Inr s"
| "to_string (JArr xs) =
     (case elements_to_strings xs of
        Inl e \<Rightarrow> Inl e
      | Inr strs \<Rightarrow> Inr (array_join '','' strs))"
| "to_string (JObj fs) =
     (case map_of fs ''toString'' of
        None \<Rightarrow> Inr ''[object Object]''
      | Some v \<Rightarrow> Inl TypeError)"
| "elements_to_strings [] = Inr []"
| "elements_to_strings (x # xs) =
     (case (if x = JUndefined \<or> x = JNull then Inr [] else to_string x) of
        Inl e \<Rightarrow> Inl e
      | Inr str \<Rightarrow>
          (case elements_to_strings xs of
             Inl e \<Rightarrow> Inl e
           | Inr strs \<Rightarrow> Inr (str # strs)))"

text \<open>
  \<open>Array.prototype.filter\<close> and \<open>Array.prototype.find\<close>: one pass from index 0 upwards.
  The callback of \<open>find\<close> can throw, and then \<open>find\<close> throws.
\<close>

primrec array_filter :: "('a \<Rightarrow> bool) \<Rightarrow> 'a list \<Rightarrow> 'a list" where
  "array_filter p [] = []"
| "array_filter p (x # xs) = (if p x then x # array_filter p xs else array_filter p xs)"

primrec array_find :: "('a \<Rightarrow> js_error + jsval) \<Rightarrow> 'a list \<Rightarrow> js_error + 'a option" where
  "array_find p [] = Inr None"
| "array_find p (x # xs) =
     (case p x of
        Inl e \<Rightarrow> Inl e
      | Inr v \<Rightarrow> if truthy v then Inr (Some x) else array_find p xs)"

section \<open>Backend records\<close>

text \<open>
  Modelled from the spec: the types \<open>Credential\<close>, \<open>Connector\<close> and
  \<open>ConnectorIndexingStatus\<close> of \<open>@/lib/types\<close> are not among the sources. The spec's data
  model gives a credential an opaque id and a JSON payload, a connector a source tag and a
  \<open>connector_specific_config\<close>, and an indexing status the join of a connector with its
  credential linkage. These are the fields the page reads: \<open>credential.id\<close> (here
  \<open>cred_id\<close>), \<open>credential.credential_json\<close>, \<open>connector.source\<close> and
  \<open>connector.connector_specific_config\<close>. The page takes the statuses as
  \<open>ConnectorIndexingStatus<any, any>\<close>, so both payloads are arbitrary values.
\<close>

record Credential =
  cred_id :: int
  credential_json :: jsval

record Connector =
  source :: string
  connector_specific_config :: jsval

record ConnectorIndexingStatus =
  connector :: Connector
  credential :: Credential

text \<open>
  Modelled from the spec: \<open>usePublicCredentials\<close> of \<open>@/lib/hooks\<close> is not among the sources;
  like \<open>useSWR\<close> it hands the render the fetched \<open>data\<close> (\<open>undefined\<close>, here \<open>None\<close>, as
  long as no fetch has delivered), the flag \<open>isLoading\<close> and the \<open>error\<close> of the last fetch
  (\<open>undefined\<close> when there is none; the page tests it for truthiness).
\<close>

record 'a swr =
  data :: "'a option"
  isLoading :: bool
  error :: jsval

section \<open>Effects of the event handlers\<close>

text \<open>
  Modelled from the spec: \<open>adminDeleteCredential\<close> and \<open>linkCredential\<close> of
  \<open>@/lib/credential\<close> are not among the sources; the spec has them as a backend deletion
  call and a backend association call. Each is one call here, and how its promise settles
  is a parameter of the handler that awaits it.

  A handler is the list of calls it makes, in order. An awaited call returns a promise
  that is fulfilled or rejected; \<open>await\<close> on a rejected promise throws, and the rest of
  the handler does not run. \<open>refreshCredentials()\<close> and \<open>mutate(key)\<close> are not awaited.
\<close>

datatype settled = Fulfilled | Rejected

datatype effect =
    AdminDeleteCredential int
  | LinkCredential int int
  | RefreshCredentials
  | Mutate string

definition await_then :: "effect \<Rightarrow> settled \<Rightarrow> effect list \<Rightarrow> effect list" where
  "await_then call outcome rest =
     call # (case outcome of Fulfilled \<Rightarrow> rest | Rejected \<Rightarrow> [])"

section \<open>Rendered elements\<close>

text \<open>
  The elements the two pages return, each with the props that carry data or a handler;
  class names, labels, sub-texts and validation schemas are left out. \<open>ConnectorsTable\<close>,
  \<open>ConnectorForm\<close>, \<open>CredentialForm\<close> and \<open>SlackBotCreationForm\<close> belong to the form and
  table library, which is not among the sources: an element records the props the page
  gives them, not what they draw. The values of the connector form are typed
  \<open>SfKbArticlesConfig\<close>, a list of strings under \<open>requested_objects\<close>.

  \<open>Str\<close> is a text node, \<open>Text\<close> the Tremor component around a literal and \<open>TextExpr\<close> the
  same component around an expression \<open>{e}\<close>.
\<close>

record column =
  header :: string
  key :: string
  getValue :: "ConnectorIndexingStatus \<Rightarrow> js_error + string"

record ConnectorsTable_props =
  connectorIndexingStatuses :: "ConnectorIndexingStatus list"
  liveCredential :: "Credential option"
  getCredential :: "Credential \<Rightarrow> js_error + jsval"
  onUpdate :: "effect list"
  onCredentialLink :: "int \<Rightarrow> settled \<Rightarrow> effect list"
  specialColumns :: "column list"
  includeName :: bool

record ConnectorForm_props =
  nameBuilder :: "string list \<Rightarrow> string"
  ccPairNameBuilder :: "string list \<Rightarrow> string"
  form_source :: string
  inputType :: string
  initialValues :: "string list"
  credentialId :: int
  refreshFreq :: nat

record CredentialForm_props =
  credential_initialValues :: "(string \<times> string) list"
  onSubmit :: "bool \<Rightarrow> effect list"

datatype element =
    Fragment "element list"
  | Div "element list"
  | Card "element list"
  | Str string
  | Text string
  | TextExpr jsval
  | Title string
  | Button "settled \<Rightarrow> effect list" "element list"
  | TrashIcon
  | LoadingAnimation string
  | HealthCheckBanner
  | BackButton
  | AdminPageTitle string
  | ErrorCallout string string
  | CredentialForm CredentialForm_props
  | ConnectorsTable ConnectorsTable_props
  | ConnectorForm ConnectorForm_props
  | SlackBotCreationForm jsval jsval

section \<open>The Salesforce KB Articles page\<close>

text \<open>
  \<open>MainSection\<close> is one function in the source. Here its two derived values, the two
  steps of the JSX it returns and the handlers it passes down are definitions of their
  own, named after the source where it names them, by their place otherwise; the line
  numbers are those of the source file. Both source files call their default export
  \<open>Page\<close>: they are \<open>Page_salesforce\<close> and \<open>Page_bot_config\<close> here.
\<close>

subsection \<open>The two derived values (lines 116 to 127)\<close>

definition SalesforceConnectorIndexingStatuses ::
  "ConnectorIndexingStatus list \<Rightarrow> ConnectorIndexingStatus list" where
  "SalesforceConnectorIndexingStatuses indexingStatuses =
     array_filter
       (\<lambda>connectorIndexingStatus. source (connector connectorIndexingStatus) = ''salesforce'')
       indexingStatuses"

definition SfKbArticlesCredential :: "Credential list \<Rightarrow> js_error + Credential option" where
  "SfKbArticlesCredential credentialsData =
     array_find (\<lambda>credential. opt_member (credential_json credential) ''sf_username'')
       credentialsData"

subsection \<open>Step 1: the credential (lines 140 to 216)\<close>

text \<open>
  \<open>delete_onClick\<close> is the \<open>onClick\<close> of lines 149 to 152, \<open>credential_onSubmit\<close> the
  \<open>onSubmit\<close> of lines 208 to 212. The selected credential is an object or \<open>undefined\<close>,
  so the test \<open>SfKbArticlesCredential ? ... : ...\<close> is the case distinction on the option.
\<close>

definition delete_onClick :: "Credential \<Rightarrow> settled \<Rightarrow> effect list" where
  "delete_onClick cred outcome =
     await_then (AdminDeleteCredential (cred_id cred)) outcome [RefreshCredentials]"

definition credential_onSubmit :: "bool \<Rightarrow> effect list" where
  "credential_onSubmit isSuccess = (if isSuccess then [RefreshCredentials] else [])"

definition credential_form_props :: CredentialForm_props where
  "credential_form_props =
     \<lparr>credential_initialValues =
        [(''sf_client_id'', []), (''sf_client_secret'', []), (''sf_username'', []),
         (''sf_password'', [])],
      onSubmit = credential_onSubmit\<rparr>"

definition step1 :: "Credential option \<Rightarrow> js_error + element" where
  "step1 cred =
     (case cred of
        Some c \<Rightarrow>
          (case get_member (credential_json c) ''sf_username'' of
             Inl e \<Rightarrow> Inl e
           | Inr username \<Rightarrow>
               Inr (Fragment
                 [Div [Text ''Existing SalesForce Username: '',
                       TextExpr username,
                       Button (delete_onClick c) [TrashIcon]]]))
      | None \<Rightarrow>
          Inr (Fragment
            [Text (''As a first step, please provide the Salesforce account'' @ [CHR 0x27] @
                   ''s client_id, client_secret, username and password.''),
             Card [CredentialForm credential_form_props]]))"

subsection \<open>Step 2: the table and the connector form (lines 222 to 318)\<close>

text \<open>
  \<open>link_onCredentialLink\<close> is the \<open>onCredentialLink\<close> of lines 238 to 243,
  \<open>connectors_getValue\<close> the \<open>getValue\<close> of lines 248 to 252 and \<open>sf_nameBuilder\<close> the
  function given as \<open>nameBuilder\<close> and as \<open>ccPairNameBuilder\<close> (lines 264 to 273), where
  \<open>values.requested_objects\<close>, an array, is truthy, so that the test is on its length.
  \<open>cond && e\<close> as a child renders \<open>e\<close> or nothing.
\<close>

definition indexing_status_key :: string where
  "indexing_status_key = ''/api/manage/admin/connector/indexing-status''"

definition link_onCredentialLink :: "Credential option \<Rightarrow> int \<Rightarrow> settled \<Rightarrow> effect list" where
  "link_onCredentialLink cred connectorId outcome =
     (case cred of
        Some c \<Rightarrow>
          await_then (LinkCredential connectorId (cred_id c)) outcome
            [Mutate indexing_status_key]
      | None \<Rightarrow> [])"

definition connectors_getValue :: "ConnectorIndexingStatus \<Rightarrow> js_error + string" where
  "connectors_getValue ccPairStatus =
     (let connectorConfig = connector_specific_config (connector ccPairStatus)
      in case get_member connectorConfig ''requested_objects'' of
           Inl e \<Rightarrow> Inl e
         | Inr v \<Rightarrow> to_string v)"

definition connectors_table_props ::
  "ConnectorIndexingStatus list \<Rightarrow> Credential option \<Rightarrow> ConnectorsTable_props" where
  "connectors_table_props statuses cred =
     \<lparr>connectorIndexingStatuses = statuses,
      liveCredential = cred,
      getCredential = (\<lambda>credential. get_member (credential_json credential) ''sf_client_secret''),
      onUpdate = [Mutate indexing_status_key],
      onCredentialLink = link_onCredentialLink cred,
      specialColumns =
        [\<lparr>header = ''Connectors'', key = ''connectors'', getValue = connectors_getValue\<rparr>],
      includeName = True\<rparr>"

definition step2_table :: "ConnectorIndexingStatus list \<Rightarrow> Credential option \<Rightarrow> element list" where
  "step2_table statuses cred =
     (if length statuses > 0 then
        [Fragment
          [Text ''The latest state of your Salesforce objects are fetched every 10 minutes.'',
           Div [ConnectorsTable (connectors_table_props statuses cred)]]]
      else [])"

definition sf_nameBuilder :: "string list \<Rightarrow> string" where
  "sf_nameBuilder requested_objects =
     (if length requested_objects > 0
      then ''SfKbArticles-'' @ array_join ''-'' requested_objects
      else ''SfKbArticles'')"

definition connector_form_props :: "Credential \<Rightarrow> ConnectorForm_props" where
  "connector_form_props cred =
     \<lparr>nameBuilder = sf_nameBuilder,
      ccPairNameBuilder = sf_nameBuilder,
      form_source = ''sfkbarticles'',
      inputType = ''poll'',
      initialValues = [],
      credentialId = cred_id cred,
      refreshFreq = 10 * 60\<rparr>"

definition step2_form :: "Credential option \<Rightarrow> element" where
  "step2_form cred =
     (case cred of
        Some c \<Rightarrow> Card [ConnectorForm (connector_form_props c)]
      | None \<Rightarrow>
          Text (''Please provide all Salesforce info in Step 1 first! Once you'' @ [CHR 0x27] @
                ''re done with that, you can then specify the product components for which '' @
                ''you want to fetch the Salesforce Knowledge Base articles.''))"

subsection \<open>\<open>MainSection\<close> (lines 83 to 321)\<close>

text \<open>
  \<open>main_return\<close> is the fragment returned at lines 129 to 320. In \<open>MainSection\<close> the test
  \<open>error || !data\<close> is the case distinction on \<open>data\<close> with the test of \<open>error\<close> in its
  \<open>Some\<close> branch, which gives the fetched list its name.
\<close>

definition main_return ::
  "ConnectorIndexingStatus list \<Rightarrow> Credential option \<Rightarrow> js_error + element" where
  "main_return statuses cred =
     (case step1 cred of
        Inl e \<Rightarrow> Inl e
      | Inr credentialStep \<Rightarrow>
          Inr (Fragment
            ([Text (''The Salesforce Knowledge Base Articles connector allows you to '' @
                    ''index and search through your Salesforce Knowledge Base. Once '' @
                    ''setup, all indicated Salesforce data will be queryable within '' @
                    ''Darwin.''),
              Title ''Step 1: Provide Salesforce credentials'',
              credentialStep,
              Title ''Step 2: Manage Salesforce KB Articles Connector''] @
             step2_table statuses cred @
             [step2_form cred])))"

definition MainSection ::
  "ConnectorIndexingStatus list swr \<Rightarrow> Credential list swr \<Rightarrow> js_error + element" where
  "MainSection statusesSWR credentialsSWR =
     (if (data statusesSWR = None \<and> isLoading statusesSWR) \<or>
         (data credentialsSWR = None \<and> isLoading credentialsSWR)
      then Inr (LoadingAnimation ''Loading'')
      else
        (case data statusesSWR of
           None \<Rightarrow> Inr (Div [Str ''Failed to load connectors''])
         | Some indexingStatuses \<Rightarrow>
             (if truthy (error statusesSWR) then Inr (Div [Str ''Failed to load connectors''])
              else
                (case data credentialsSWR of
                   None \<Rightarrow> Inr (Div [Str ''Failed to load credentials''])
                 | Some credentialsData \<Rightarrow>
                     (if truthy (error credentialsSWR)
                      then Inr (Div [Str ''Failed to load credentials''])
                      else
                        (case SfKbArticlesCredential credentialsData of
                           Inl e \<Rightarrow> Inl e
                         | Inr cred \<Rightarrow>
                             main_return
                               (SalesforceConnectorIndexingStatuses indexingStatuses) cred))))))"

definition Page_salesforce ::
  "ConnectorIndexingStatus list swr \<Rightarrow> Credential list swr \<Rightarrow> js_error + element" where
  "Page_salesforce statusesSWR credentialsSWR =
     (case MainSection statusesSWR credentialsSWR of
        Inl e \<Rightarrow> Inl e
      | Inr main \<Rightarrow>
          Inr (Div [Div [HealthCheckBanner], AdminPageTitle ''Salesforce KB Articles'', main]))"

section \<open>The bot-configuration creation page\<close>

text \<open>
  Modelled from the spec: \<open>fetchSS\<close> and \<open>fetchAssistantsSS\<close> are not among the sources.
  By the spec the first yields the response of \<open>GET /manage/document-set\<close> and the second
  the assistant records or an error string, signalled as a value instead of thrown. The
  page starts here where \<open>Promise.all\<close> has resolved, with the two results as arguments.

  A \<open>Response\<close> is its status, what \<open>text()\<close> resolves to and what \<open>json()\<close> resolves to
  (or the SyntaxError it rejects with). \<open>ok\<close> is the Fetch standard's: a status from 200
  to 299. The result of \<open>fetchAssistantsSS\<close> is the pair of the assistants and an error
  string or \<open>null\<close>; \<open>if (assistantsFetchError)\<close> holds for a non-empty string.
\<close>

record response =
  resp_status :: nat
  resp_text :: string
  resp_json :: "js_error + jsval"

definition ok :: "response \<Rightarrow> bool" where
  "ok r = (200 \<le> resp_status r \<and> resp_status r \<le> 299)"

definition creation_page :: "jsval \<Rightarrow> jsval \<Rightarrow> element" where
  "creation_page documentSets assistants =
     Div [BackButton,
          AdminPageTitle ''New Slack Bot Config'',
          Text (''Define a new configuration below! This config will determine how '' @
                ''Darwin behaves in the specified channels.''),
          SlackBotCreationForm documentSets assistants]"

definition Page_bot_config :: "response \<Rightarrow> jsval \<times> string option \<Rightarrow> js_error + element" where
  "Page_bot_config documentSetsResponse fetchAssistantsResponse =
     (case fetchAssistantsResponse of (assistants, assistantsFetchError) \<Rightarrow>
        (if \<not> ok documentSetsResponse then
           Inr (ErrorCallout ''Something went wrong :(''
                  (''Failed to fetch document sets - '' @ resp_text documentSetsResponse))
         else
           (case resp_json documentSetsResponse of
              Inl e \<Rightarrow> Inl e
            | Inr documentSets \<Rightarrow>
                (case assistantsFetchError of
                   None \<Rightarrow> Inr (creation_page documentSets assistants)
                 | Some msg \<Rightarrow>
                     (if msg \<noteq> [] then
                        Inr (ErrorCallout ''Something went wrong :(''
                               (''Failed to fetch assistants - '' @ msg))
                      else Inr (creation_page documentSets assistants))))))"

section \<open>Looking into a rendered tree\<close>

fun nodes :: "element \<Rightarrow> element list" where
  "nodes (Fragment es) = Fragment es # concat (map nodes es)"
| "nodes (Div es) = Div es # concat (map nodes es)"
| "nodes (Card es) = Card es # concat (map nodes es)"
| "nodes (Button h es) = Button h es # concat (map nodes es)"
| "nodes e = [e]"

fun as_connector_form :: "element \<Rightarrow> ConnectorForm_props option" where
  "as_connector_form (ConnectorForm p) = Some p"
| "as_connector_form e = None"

fun as_table :: "element \<Rightarrow> ConnectorsTable_props option" where
  "as_table (ConnectorsTable p) = Some p"
| "as_table e = None"

fun as_credential_form :: "element \<Rightarrow> CredentialForm_props option" where
  "as_credential_form (CredentialForm p) = Some p"
| "as_credential_form e = None"

fun as_button :: "element \<Rightarrow> (settled \<Rightarrow> effect list) option" where
  "as_button (Button h es) = Some h"
| "as_button e = None"

fun as_creation_form :: "element \<Rightarrow> (jsval \<times> jsval) option" where
  "as_creation_form (SlackBotCreationForm documentSets personas) = Some (documentSets, personas)"
| "as_creation_form e = None"

text \<open>
  What a render shows: every element of the returned tree, in document order; nothing
  when the render threw.
\<close>

definition rendered :: "js_error + element \<Rightarrow> element list" where
  "rendered r = (case r of Inl err \<Rightarrow> [] | Inr e \<Rightarrow> nodes e)"

definition connector_forms :: "js_error + element \<Rightarrow> ConnectorForm_props list" where
  "connector_forms r = List.map_filter as_connector_form (rendered r)"

definition tables :: "js_error + element \<Rightarrow> ConnectorsTable_props list" where
  "tables r = List.map_filter as_table (rendered r)"

definition credential_forms :: "js_error + element \<Rightarrow> CredentialForm_props list" where
  "credential_forms r = List.map_filter as_credential_form (rendered r)"

definition buttons :: "js_error + element \<Rightarrow> (settled \<Rightarrow> effect list) list" where
  "buttons r = List.map_filter as_button (rendered r)"

definition creation_forms :: "js_error + element \<Rightarrow> (jsval \<times> jsval) list" where
  "creation_forms r = List.map_filter as_creation_form (rendered r)"

section \<open>The claims' own words\<close>

text \<open>
  ``credential_json has a truthy sf_username field'': the payload is an object, it has the
  field, and the field's value is truthy.
\<close>

definition has_truthy_sf_username :: "Credential \<Rightarrow> bool" where
  "has_truthy_sf_username c =
     (case credential_json c of
        JObj fs \<Rightarrow> (case map_of fs ''sf_username'' of Some v \<Rightarrow> truthy v | None \<Rightarrow> False)
      | _ \<Rightarrow> False)"

text \<open>``its elements joined by commas'': the first element, then a comma before each other one.\<close>

definition joined_by_commas :: "string list \<Rightarrow> string" where
  "joined_by_commas xs =
     (case xs of [] \<Rightarrow> [] | x # rest \<Rightarrow> x @ concat (map (\<lambda>y. '','' @ y) rest))"

section \<open>Sample data\<close>

definition sf_credential :: Credential where
  "sf_credential =
     \<lparr>cred_id = 7,
      credential_json = JObj [(''sf_client_id'', JStr ''cid''), (''sf_username'', JStr ''ada'')]\<rparr>"

definition other_sf_credential :: Credential where
  "other_sf_credential = \<lparr>cred_id = 9, credential_json = JObj [(''sf_username'', JStr ''bob'')]\<rparr>"

definition github_credential :: Credential where
  "github_credential =
     \<lparr>cred_id = 3, credential_json = JObj [(''github_access_token'', JStr ''t'')]\<rparr>"

definition null_credential :: Credential where
  "null_credential = \<lparr>cred_id = 4, credential_json = JNull\<rparr>"

definition salesforce_status :: ConnectorIndexingStatus where
  "salesforce_status =
     \<lparr>connector =
        \<lparr>source = ''salesforce'',
         connector_specific_config =
           JObj [(''requested_objects'', JArr [JStr ''Studio'', JStr ''Robot''])]\<rparr>,
      credential = sf_credential\<rparr>"

definition sfkbarticles_status :: ConnectorIndexingStatus where
  "sfkbarticles_status =
     \<lparr>connector =
        \<lparr>source = ''sfkbarticles'',
         connector_specific_config = JObj [(''requested_objects'', JArr [JStr ''Studio''])]\<rparr>,
      credential = sf_credential\<rparr>"

definition web_status :: ConnectorIndexingStatus where
  "web_status =
     \<lparr>connector = \<lparr>source = ''web'', connector_specific_config = JObj []\<rparr>,
      credential = github_credential\<rparr>"

definition undefined_credential :: Credential where
  "undefined_credential = \<lparr>cred_id = 5, credential_json = JUndefined\<rparr>"

definition server_error_response :: response where
  "server_error_response =
     \<lparr>resp_status = 500, resp_text = ''Internal Server Error'', resp_json = Inl SyntaxError\<rparr>"

definition loaded :: "'a \<Rightarrow> 'a swr" where
  "loaded v = \<lparr>data = Some v, isLoading = False, error = JUndefined\<rparr>"

definition stale :: "'a \<Rightarrow> 'a swr" where
  "stale v = \<lparr>data = Some v, isLoading = False, error = JObj [(''message'', JStr ''500'')]\<rparr>"

definition failed :: "'a swr" where
  "failed = \<lparr>data = None, isLoading = False, error = JObj [(''message'', JStr ''500'')]\<rparr>"

definition in_flight :: "'a swr" where
  "in_flight = \<lparr>data = None, isLoading = True, error = JUndefined\<rparr>"

section \<open>Facts about the building blocks\<close>

lemma array_filter_eq: "array_filter p xs = filter p xs"
  by (induction xs) simp_all

lemma opt_member_returns: "\<exists>v. opt_member j k = Inr v"
  by (cases j) simp_all

lemma sf_username_truthy:
  "opt_member (credential_json c) ''sf_username'' = Inr v \<Longrightarrow> truthy v = has_truthy_sf_username c"
  by (cases "credential_json c") (auto simp: has_truthy_sf_username_def split: option.splits)

lemma SfKbArticlesCredential_find:
  "SfKbArticlesCredential cs = Inr (List.find has_truthy_sf_username cs)"
proof (induction cs)
  case Nil
  show ?case by (simp add: SfKbArticlesCredential_def)
next
  case (Cons c cs)
  obtain v where v: "opt_member (credential_json c) ''sf_username'' = Inr v"
    using opt_member_returns by blast
  from Cons v sf_username_truthy[OF v] show ?case
    by (simp add: SfKbArticlesCredential_def)
qed

lemma get_member_sf_username:
  "has_truthy_sf_username c \<Longrightarrow> \<exists>u. get_member (credential_json c) ''sf_username'' = Inr u \<and> truthy u"
  by (cases "credential_json c") (auto simp: has_truthy_sf_username_def split: option.splits)

lemma find_has: "List.find P xs = Some c \<Longrightarrow> P c"
  by (induction xs) (auto split: if_splits)

lemma find_first:
  assumes "\<forall>x\<in>set pre. \<not> P x" "P c"
  shows "List.find P (pre @ c # post) = Some c"
  using assms by (induction pre) simp_all

lemma find_none: "(\<forall>x\<in>set xs. \<not> P x) \<Longrightarrow> List.find P xs = None"
  by (simp add: find_None_iff)

lemma find_skip: "\<not> P c \<Longrightarrow> List.find P (pre @ c # post) = List.find P (pre @ post)"
  by (induction pre) simp_all

lemma array_join_commas: "array_join '','' xs = joined_by_commas xs"
proof (induction "'',''" xs rule: array_join.induct)
  case 1
  show ?case by (simp add: joined_by_commas_def)
next
  case (2 x)
  show ?case by (simp add: joined_by_commas_def)
next
  case (3 x y ys)
  then show ?case by (simp add: joined_by_commas_def)
qed

lemma step1_returns:
  assumes "cred = List.find has_truthy_sf_username cs"
  shows "\<exists>el. step1 cred = Inr el"
proof (cases cred)
  case None
  then show ?thesis by (simp add: step1_def)
next
  case (Some c)
  with assms have "has_truthy_sf_username c" by (metis find_has)
  then obtain u where "get_member (credential_json c) ''sf_username'' = Inr u"
    using get_member_sf_username by blast
  with Some show ?thesis by (simp add: step1_def)
qed

lemma map_filter_append: "List.map_filter f (xs @ ys) = List.map_filter f xs @ List.map_filter f ys"
  by (simp add: List.map_filter_def)

lemma connector_forms_main_return:
  "connector_forms (main_return sts cred) =
     (case step1 cred of Inl e \<Rightarrow> [] | Inr el \<Rightarrow> (case cred of Some c \<Rightarrow> [connector_form_props c] | None \<Rightarrow> []))"
  by (auto simp: connector_forms_def rendered_def main_return_def step1_def step2_table_def step2_form_def
      map_filter_append split: option.splits sum.splits)

lemma tables_main_return:
  "tables (main_return sts cred) =
     (case step1 cred of Inl e \<Rightarrow> [] | Inr el \<Rightarrow> (if sts = [] then [] else [connectors_table_props sts cred]))"
  by (auto simp: tables_def rendered_def main_return_def step1_def step2_table_def step2_form_def
      map_filter_append split: option.splits sum.splits)

lemma credential_forms_main_return:
  "credential_forms (main_return sts cred) =
     (case step1 cred of Inl e \<Rightarrow> [] | Inr el \<Rightarrow> (case cred of Some c \<Rightarrow> [] | None \<Rightarrow> [credential_form_props]))"
  by (auto simp: credential_forms_def rendered_def main_return_def step1_def step2_table_def step2_form_def
      map_filter_append split: option.splits sum.splits)

lemma buttons_main_return:
  "buttons (main_return sts cred) =
     (case step1 cred of Inl e \<Rightarrow> [] | Inr el \<Rightarrow> (case cred of Some c \<Rightarrow> [delete_onClick c] | None \<Rightarrow> []))"
  by (auto simp: buttons_def rendered_def main_return_def step1_def step2_table_def step2_form_def
      map_filter_append split: option.splits sum.splits)

lemma MainSection_past_guards:
  assumes "data st = Some sts" "\<not> truthy (error st)" "data cr = Some cs" "\<not> truthy (error cr)"
  shows "MainSection st cr =
           main_return (SalesforceConnectorIndexingStatuses sts) (List.find has_truthy_sf_username cs)"
  using assms by (simp add: MainSection_def SfKbArticlesCredential_find)

lemma MainSection_returns: "\<exists>el. MainSection st cr = Inr el"
proof -
  have "\<exists>el. main_return sts (List.find has_truthy_sf_username cs) = Inr el" for sts cs
    using step1_returns[OF refl, of cs] by (auto simp: main_return_def)
  then show ?thesis
    by (auto simp: MainSection_def SfKbArticlesCredential_find split: option.splits)
qed

section \<open>What \<open>MainSection\<close> can return\<close>

lemma plain_renders [simp]:
  "connector_forms (Inr (LoadingAnimation s)) = []"
  "connector_forms (Inr (Div [Str s])) = []"
  "tables (Inr (LoadingAnimation s)) = []"
  "tables (Inr (Div [Str s])) = []"
  "credential_forms (Inr (LoadingAnimation s)) = []"
  "credential_forms (Inr (Div [Str s])) = []"
  "buttons (Inr (LoadingAnimation s)) = []"
  "buttons (Inr (Div [Str s])) = []"
  by (simp_all add: connector_forms_def tables_def credential_forms_def buttons_def rendered_def)

lemma MainSection_cases:
  "MainSection st cr = Inr (LoadingAnimation ''Loading'') \<or>
   MainSection st cr = Inr (Div [Str ''Failed to load connectors'']) \<or>
   MainSection st cr = Inr (Div [Str ''Failed to load credentials'']) \<or>
   (\<exists>sts cs. data st = Some sts \<and> \<not> truthy (error st) \<and> data cr = Some cs \<and> \<not> truthy (error cr) \<and>
      MainSection st cr =
        main_return (SalesforceConnectorIndexingStatuses sts) (List.find has_truthy_sf_username cs))"
  by (auto simp: MainSection_def SfKbArticlesCredential_find split: option.splits)

lemma tables_MainSection:
  assumes "t \<in> set (tables (MainSection st cr))"
  shows "\<exists>sts cs. data st = Some sts \<and> data cr = Some cs \<and>
           t = connectors_table_props (SalesforceConnectorIndexingStatuses sts)
                 (List.find has_truthy_sf_username cs)"
  using MainSection_cases[of st cr] assms
  by (auto simp: tables_main_return split: sum.splits if_splits)

lemma connector_forms_MainSection:
  assumes "p \<in> set (connector_forms (MainSection st cr))"
  shows "\<exists>cs c. data cr = Some cs \<and> List.find has_truthy_sf_username cs = Some c \<and>
           p = connector_form_props c"
proof -
  from MainSection_cases[of st cr] assms
  obtain sts cs where cs: "data cr = Some cs"
    and m: "MainSection st cr =
      main_return (SalesforceConnectorIndexingStatuses sts) (List.find has_truthy_sf_username cs)"
    by auto
  from assms m obtain c where "List.find has_truthy_sf_username cs = Some c" "p = connector_form_props c"
    by (cases "List.find has_truthy_sf_username cs")
       (auto simp: connector_forms_main_return split: sum.splits)
  with cs show ?thesis by blast
qed

lemma buttons_MainSection:
  assumes "h \<in> set (buttons (MainSection st cr))"
  shows "\<exists>cs c. data cr = Some cs \<and> List.find has_truthy_sf_username cs = Some c \<and>
           h = delete_onClick c"
proof -
  from MainSection_cases[of st cr] assms
  obtain sts cs where cs: "data cr = Some cs"
    and m: "MainSection st cr =
      main_return (SalesforceConnectorIndexingStatuses sts) (List.find has_truthy_sf_username cs)"
    by auto
  from assms m obtain c where "List.find has_truthy_sf_username cs = Some c" "h = delete_onClick c"
    by (cases "List.find has_truthy_sf_username cs")
       (auto simp: buttons_main_return split: sum.splits)
  with cs show ?thesis by blast
qed

lemma plain_rendered [simp]:
  "rendered (Inr (LoadingAnimation s)) = [LoadingAnimation s]"
  "rendered (Inr (Div [Str s])) = [Div [Str s], Str s]"
  by (simp_all add: rendered_def)

lemma elements_to_strings_strings: "elements_to_strings (map JStr objs) = Inr objs"
  by (induction objs) simp_all

lemma existing_label_main_return:
  "Text ''Existing SalesForce Username: '' \<notin> set (rendered (main_return sts None))"
  by (simp add: rendered_def main_return_def step1_def step2_table_def step2_form_def)

lemmas sample_defs = sf_credential_def other_sf_credential_def github_credential_def
  null_credential_def undefined_credential_def salesforce_status_def sfkbarticles_status_def
  web_status_def server_error_response_def loaded_def stale_def failed_def in_flight_def

text \<open>The page wrapper adds no form, table or button of its own.\<close>

lemma Page_salesforce_parts:
  "connector_forms (Page_salesforce st cr) = connector_forms (MainSection st cr)"
  "credential_forms (Page_salesforce st cr) = credential_forms (MainSection st cr)"
  "tables (Page_salesforce st cr) = tables (MainSection st cr)"
  "buttons (Page_salesforce st cr) = buttons (MainSection st cr)"
  by (cases "MainSection st cr";
      simp add: Page_salesforce_def connector_forms_def credential_forms_def tables_def
        buttons_def rendered_def)+

subsection \<open>Renders of the sample data\<close>

lemma connector_forms_sample:
  "connector_forms (MainSection (loaded sts) (loaded [sf_credential])) = [connector_form_props sf_credential]"
  by (simp add: sample_defs MainSection_def SfKbArticlesCredential_def connector_forms_main_return step1_def)

lemma tables_sample:
  "tables (MainSection (loaded sts) (loaded [sf_credential])) =
     (if SalesforceConnectorIndexingStatuses sts = [] then []
      else [connectors_table_props (SalesforceConnectorIndexingStatuses sts) (Some sf_credential)])"
  by (simp add: sample_defs MainSection_def SfKbArticlesCredential_def tables_main_return step1_def)

lemma buttons_sample:
  "buttons (MainSection (loaded sts) (loaded [sf_credential])) = [delete_onClick sf_credential]"
  by (simp add: sample_defs MainSection_def SfKbArticlesCredential_def buttons_main_return step1_def)

section \<open>The claims\<close>

subsection \<open>Table and connector form\<close>

text \<open>
  Claim C1, as amended. On the Salesforce KB Articles page, in every state where both
  fetches have delivered their data without an error and some credential has a truthy
  \<open>sf_username\<close>, the rendered output contains the connector-creation form (exactly one),
  whether or not a connector exists; and when, in addition, some indexing status has
  \<open>connector.source\<close> equal to \<open>"salesforce"\<close>, it also contains the summary table (exactly
  one).
\<close>

theorem C1_table_and_form:
  assumes "data st = Some sts" "\<not> truthy (error st)" "data cr = Some cs" "\<not> truthy (error cr)"
    and "c \<in> set cs" "has_truthy_sf_username c"
  shows "length (connector_forms (MainSection st cr)) = 1
         \<and> (s \<in> set sts \<and> source (connector s) = ''salesforce'' \<longrightarrow>
              length (tables (MainSection st cr)) = 1)"
proof -
  from assms(5,6) obtain c' where c': "List.find has_truthy_sf_username cs = Some c'"
    by (cases "List.find has_truthy_sf_username cs") (auto simp: find_None_iff)
  obtain el where el: "step1 (Some c') = Inr el"
    using step1_returns[of "Some c'" cs] c' by auto
  have m: "MainSection st cr =
             main_return (SalesforceConnectorIndexingStatuses sts) (Some c')"
    using MainSection_past_guards[OF assms(1-4)] c' by simp
  have form: "length (connector_forms (MainSection st cr)) = 1"
    by (simp add: m connector_forms_main_return el)
  have "length (tables (MainSection st cr)) = 1"
    if "s \<in> set sts \<and> source (connector s) = ''salesforce''"
  proof -
    from that have "SalesforceConnectorIndexingStatuses sts \<noteq> []"
      by (auto simp: SalesforceConnectorIndexingStatuses_def array_filter_eq filter_empty_conv)
    then show ?thesis by (simp add: m tables_main_return el)
  qed
  with form show ?thesis by blast
qed

text \<open>
  The amended statement at a state without any connector, and at a state with two
  statuses and two credentials.
\<close>

theorem C1_table_and_form_witness:
  "has_truthy_sf_username sf_credential
   \<and> source (connector salesforce_status) = ''salesforce''
   \<and> length (connector_forms (MainSection (loaded []) (loaded [sf_credential]))) = 1
   \<and> tables (MainSection (loaded []) (loaded [sf_credential])) = []
   \<and> length (connector_forms (MainSection (loaded [web_status, salesforce_status])
                     (loaded [github_credential, sf_credential]))) = 1
   \<and> length (tables (MainSection (loaded [web_status, salesforce_status])
                     (loaded [github_credential, sf_credential]))) = 1"
proof -
  have h: "has_truthy_sf_username sf_credential"
    by (simp add: sf_credential_def has_truthy_sf_username_def)
  have s: "source (connector salesforce_status) = ''salesforce''"
    by (simp add: salesforce_status_def)
  have a: "length (connector_forms (MainSection (loaded []) (loaded [sf_credential]))) = 1"
    using C1_table_and_form[where st = "loaded []" and sts = "[]"
          and cr = "loaded [sf_credential]" and cs = "[sf_credential]" and c = sf_credential] h
    by (simp add: loaded_def)
  have b: "tables (MainSection (loaded []) (loaded [sf_credential])) = []"
    by (simp add: tables_sample SalesforceConnectorIndexingStatuses_def)
  have c: "length (connector_forms (MainSection (loaded [web_status, salesforce_status])
                     (loaded [github_credential, sf_credential]))) = 1
   \<and> length (tables (MainSection (loaded [web_status, salesforce_status])
                     (loaded [github_credential, sf_credential]))) = 1"
    using C1_table_and_form[where st = "loaded [web_status, salesforce_status]"
          and sts = "[web_status, salesforce_status]"
          and cr = "loaded [github_credential, sf_credential]"
          and cs = "[github_credential, sf_credential]" and c = sf_credential
          and s = salesforce_status] h s
    by (simp add: loaded_def)
  from h s a b c show ?thesis by simp
qed

text \<open>
  The statement with ``does not contain the connector-creation form'' fails: with one
  matching credential and one \<open>"salesforce"\<close> connector, both fetched without error, the
  table is rendered and so is the form, wired to that credential. And with the same data
  held next to an error of the indexing-status fetch, the page is the failure message,
  without a table.
\<close>

theorem C1_form_hidden_counterexample:
  "has_truthy_sf_username sf_credential
   \<and> source (connector salesforce_status) = ''salesforce''
   \<and> connector_forms (MainSection (loaded [salesforce_status]) (loaded [sf_credential]))
       = [connector_form_props sf_credential]
   \<and> \<not> (tables (MainSection (loaded [salesforce_status]) (loaded [sf_credential])) \<noteq> []
        \<and> connector_forms (MainSection (loaded [salesforce_status]) (loaded [sf_credential])) = [])
   \<and> MainSection (stale [salesforce_status]) (loaded [sf_credential])
       = Inr (Div [Str ''Failed to load connectors''])
   \<and> tables (MainSection (stale [salesforce_status]) (loaded [sf_credential])) = []"
proof -
  have a: "has_truthy_sf_username sf_credential"
    by (simp add: sf_credential_def has_truthy_sf_username_def)
  have b: "source (connector salesforce_status) = ''salesforce''"
    by (simp add: salesforce_status_def)
  have c: "connector_forms (MainSection (loaded [salesforce_status]) (loaded [sf_credential]))
       = [connector_form_props sf_credential]"
    by (rule connector_forms_sample)
  have d: "MainSection (stale [salesforce_status]) (loaded [sf_credential])
       = Inr (Div [Str ''Failed to load connectors''])"
    by (simp add: MainSection_def stale_def loaded_def)
  from a b c d show ?thesis by simp
qed

subsection \<open>Credential selection\<close>

text \<open>
  Claim C2, as amended. The credential selection picks the first credential of the
  fetched list whose \<open>credential_json\<close> has a truthy \<open>sf_username\<close>: whatever comes before
  it without one and whatever comes after it, the selection is that credential and the
  page renders as if it were the only one. When no entry of the fetched list has a truthy
  \<open>sf_username\<close>, nothing is selected and the page renders neither the existing-credential
  line nor its delete button; and in every render where both fetches have delivered their
  data without an error, it renders the credential-entry form.
\<close>

theorem C2_first_match_selected:
  "((\<forall>x\<in>set pre. \<not> has_truthy_sf_username x) \<and> has_truthy_sf_username c \<longrightarrow>
      SfKbArticlesCredential (pre @ c # post) = Inr (Some c) \<and>
      MainSection st (cr\<lparr>data := Some (pre @ c # post)\<rparr>) = MainSection st (cr\<lparr>data := Some [c]\<rparr>))
   \<and>
   ((\<forall>x\<in>set cs. \<not> has_truthy_sf_username x) \<longrightarrow>
      SfKbArticlesCredential cs = Inr None \<and>
      (data cr = Some cs \<longrightarrow>
         buttons (MainSection st cr) = [] \<and>
         Text ''Existing SalesForce Username: '' \<notin> set (rendered (MainSection st cr))) \<and>
      (data st = Some sts \<and> \<not> truthy (error st) \<and> data cr = Some cs \<and> \<not> truthy (error cr) \<longrightarrow>
         credential_forms (MainSection st cr) = [credential_form_props]))"
proof (intro conjI impI)
  assume a: "(\<forall>x\<in>set pre. \<not> has_truthy_sf_username x) \<and> has_truthy_sf_username c"
  then have f: "List.find has_truthy_sf_username (pre @ c # post) = Some c"
    by (simp add: find_first)
  then show "SfKbArticlesCredential (pre @ c # post) = Inr (Some c)"
    by (simp add: SfKbArticlesCredential_find)
  from a have "List.find has_truthy_sf_username [c] = Some c" by simp
  with f show "MainSection st (cr\<lparr>data := Some (pre @ c # post)\<rparr>) = MainSection st (cr\<lparr>data := Some [c]\<rparr>)"
    by (cases "data st") (simp_all add: MainSection_def SfKbArticlesCredential_find)
next
  assume a: "\<forall>x\<in>set cs. \<not> has_truthy_sf_username x"
  then have n: "List.find has_truthy_sf_username cs = None" by (rule find_none)
  then show "SfKbArticlesCredential cs = Inr None"
    by (simp add: SfKbArticlesCredential_find)
  have s: "step1 None = Inr (Fragment
            [Text (''As a first step, please provide the Salesforce account'' @ [CHR 0x27] @
                   ''s client_id, client_secret, username and password.''),
             Card [CredentialForm credential_form_props]])"
    by (simp add: step1_def)
  {
    assume d: "data cr = Some cs"
    from MainSection_cases[of st cr] d n
    consider "MainSection st cr = Inr (LoadingAnimation ''Loading'')"
      | "MainSection st cr = Inr (Div [Str ''Failed to load connectors''])"
      | "MainSection st cr = Inr (Div [Str ''Failed to load credentials''])"
      | sts' where "MainSection st cr = main_return (SalesforceConnectorIndexingStatuses sts') None"
      by auto
    then have "buttons (MainSection st cr) = [] \<and>
         Text ''Existing SalesForce Username: '' \<notin> set (rendered (MainSection st cr))"
    proof cases
      case 4
      have "buttons (main_return (SalesforceConnectorIndexingStatuses sts') None) = []"
        by (simp only: buttons_main_return s sum.case option.case)
      with 4 show ?thesis by (simp add: existing_label_main_return)
    qed simp_all
    then show "buttons (MainSection st cr) = []"
      and "Text ''Existing SalesForce Username: '' \<notin> set (rendered (MainSection st cr))"
      by simp_all
  }
  assume g: "data st = Some sts \<and> \<not> truthy (error st) \<and> data cr = Some cs \<and> \<not> truthy (error cr)"
  then have m: "MainSection st cr = main_return (SalesforceConnectorIndexingStatuses sts) None"
    using MainSection_past_guards[of st sts cr cs] n by simp
  show "credential_forms (MainSection st cr) = [credential_form_props]"
    by (simp only: m credential_forms_main_return s sum.case option.case)
qed

text \<open>
  The selection on a list of four credentials, the third being the first match, and the
  page on a list of two credentials without a match: with both fetches delivered, and with
  the indexing-status fetch failed.
\<close>

theorem C2_first_match_selected_witness:
  "\<not> has_truthy_sf_username github_credential
   \<and> \<not> has_truthy_sf_username null_credential
   \<and> has_truthy_sf_username sf_credential
   \<and> SfKbArticlesCredential [github_credential, null_credential, sf_credential, other_sf_credential]
       = Inr (Some sf_credential)
   \<and> MainSection (loaded [salesforce_status])
        (loaded [github_credential, null_credential, sf_credential, other_sf_credential])
       = MainSection (loaded [salesforce_status]) (loaded [sf_credential])
   \<and> SfKbArticlesCredential [github_credential, null_credential] = Inr None
   \<and> credential_forms (MainSection (loaded [salesforce_status]) (loaded [github_credential, null_credential]))
       = [credential_form_props]
   \<and> buttons (MainSection (loaded [salesforce_status]) (loaded [github_credential, null_credential])) = []
   \<and> Text ''Existing SalesForce Username: '' \<notin>
        set (rendered (MainSection (loaded [salesforce_status]) (loaded [github_credential, null_credential])))
   \<and> buttons (MainSection failed (loaded [github_credential, null_credential])) = []
   \<and> Text ''Existing SalesForce Username: '' \<notin>
        set (rendered (MainSection failed (loaded [github_credential, null_credential])))"
proof -
  have n: "\<forall>x\<in>set [github_credential, null_credential]. \<not> has_truthy_sf_username x"
    by (simp add: github_credential_def null_credential_def has_truthy_sf_username_def)
  have h: "has_truthy_sf_username sf_credential"
    by (simp add: sf_credential_def has_truthy_sf_username_def)
  note t1 = C2_first_match_selected[where pre = "[github_credential, null_credential]"
      and c = sf_credential and post = "[other_sf_credential]"
      and st = "loaded [salesforce_status]" and cr = "loaded []"
      and cs = "[github_credential, null_credential]" and sts = "[salesforce_status]"]
  note t2 = C2_first_match_selected[where pre = "[]" and c = sf_credential and post = "[]"
      and cs = "[github_credential, null_credential]" and sts = "[salesforce_status]"
      and st = "loaded [salesforce_status]"
      and cr = "loaded [github_credential, null_credential]"]
  note t3 = C2_first_match_selected[where pre = "[]" and c = sf_credential and post = "[]"
      and cs = "[github_credential, null_credential]" and sts = "[]"
      and st = failed
      and cr = "loaded [github_credential, null_credential]"]
  from t1 n h have a: "SfKbArticlesCredential [github_credential, null_credential, sf_credential, other_sf_credential]
       = Inr (Some sf_credential)"
    and b: "MainSection (loaded [salesforce_status])
        (loaded [github_credential, null_credential, sf_credential, other_sf_credential])
       = MainSection (loaded [salesforce_status]) (loaded [sf_credential])"
    by (simp_all add: loaded_def)
  from t2 n have c: "SfKbArticlesCredential [github_credential, null_credential] = Inr None"
    and d: "credential_forms (MainSection (loaded [salesforce_status]) (loaded [github_credential, null_credential]))
       = [credential_form_props]"
      "buttons (MainSection (loaded [salesforce_status]) (loaded [github_credential, null_credential])) = []"
      "Text ''Existing SalesForce Username: '' \<notin>
        set (rendered (MainSection (loaded [salesforce_status]) (loaded [github_credential, null_credential])))"
    by (simp_all add: loaded_def)
  from t3 n have e: "buttons (MainSection failed (loaded [github_credential, null_credential])) = []"
      "Text ''Existing SalesForce Username: '' \<notin>
        set (rendered (MainSection failed (loaded [github_credential, null_credential])))"
    by (simp_all add: loaded_def)
  from n h a b c d e show ?thesis by simp
qed

text \<open>
  ``For every credential list without a match the page renders the credential-entry form''
  fails where a guard applies: the fetched credentials have no match, and with the
  indexing-status fetch failed the page is the failure message, with that fetch still in
  flight it is the loading indicator, in both without a credential form.
\<close>

theorem C2_guarded_render_counterexample:
  "\<not> has_truthy_sf_username github_credential
   \<and> MainSection failed (loaded [github_credential]) = Inr (Div [Str ''Failed to load connectors''])
   \<and> credential_forms (MainSection failed (loaded [github_credential])) = []
   \<and> MainSection in_flight (loaded [github_credential]) = Inr (LoadingAnimation ''Loading'')
   \<and> credential_forms (MainSection in_flight (loaded [github_credential])) = []"
proof -
  have a: "\<not> has_truthy_sf_username github_credential"
    by (simp add: github_credential_def has_truthy_sf_username_def)
  have b: "MainSection failed (loaded [github_credential]) = Inr (Div [Str ''Failed to load connectors''])"
    by (simp add: MainSection_def failed_def loaded_def)
  have c: "MainSection in_flight (loaded [github_credential]) = Inr (LoadingAnimation ''Loading'')"
    by (simp add: MainSection_def in_flight_def loaded_def)
  from a b c show ?thesis by simp
qed

subsection \<open>The filter\<close>

text \<open>
  Claim C3. For every list of indexing statuses, the Salesforce filter returns exactly the
  entries whose \<open>connector.source\<close> is \<open>"salesforce"\<close>, in input order: it is the
  sub-sequence of the matching entries, every entry of another source is left out, and
  with N entries of other sources among the input the result has the remaining M.
\<close>

theorem C3_filter_exact:
  "SalesforceConnectorIndexingStatuses xs = filter (\<lambda>s. source (connector s) = ''salesforce'') xs
   \<and> subseq (SalesforceConnectorIndexingStatuses xs) xs
   \<and> set (SalesforceConnectorIndexingStatuses xs)
       = {s. s \<in> set xs \<and> source (connector s) = ''salesforce''}
   \<and> length (SalesforceConnectorIndexingStatuses xs)
       + length (filter (\<lambda>s. source (connector s) \<noteq> ''salesforce'') xs) = length xs"
  unfolding SalesforceConnectorIndexingStatuses_def array_filter_eq
  using sum_length_filter_compl[of "\<lambda>s. source (connector s) = ''salesforce''" xs]
  by auto

subsection \<open>The source tag of created connectors\<close>

text \<open>
  Claim C4. The connector-creation form, wherever it is rendered, carries the source tag
  \<open>"sfkbarticles"\<close>. A status whose connector has the form's source tag is in no result of
  the summary filter, and so in no table of any render, whatever the state of that render.
\<close>

theorem C4_created_connector_excluded:
  assumes "p \<in> set (connector_forms (MainSection st cr))"
    and "source (connector created) = form_source p"
  shows "form_source p = ''sfkbarticles''
         \<and> created \<notin> set (SalesforceConnectorIndexingStatuses sts')
         \<and> (\<forall>t\<in>set (tables (MainSection st' cr')). created \<notin> set (connectorIndexingStatuses t))"
proof -
  from connector_forms_MainSection[OF assms(1)] have src: "form_source p = ''sfkbarticles''"
    by (auto simp: connector_form_props_def)
  with assms(2) have ex: "created \<notin> set (SalesforceConnectorIndexingStatuses xs)" for xs
    by (simp add: SalesforceConnectorIndexingStatuses_def array_filter_eq)
  have "created \<notin> set (connectorIndexingStatuses t)" if "t \<in> set (tables (MainSection st' cr'))" for t
    using tables_MainSection[OF that] ex by (auto simp: connectors_table_props_def)
  with src ex show ?thesis by blast
qed

text \<open>
  A connector created through the form, fetched back next to a \<open>"salesforce"\<close> one: the
  table of the next render has the \<open>"salesforce"\<close> row only.
\<close>

theorem C4_created_connector_excluded_witness:
  "connector_form_props sf_credential \<in> set (connector_forms (MainSection (loaded []) (loaded [sf_credential])))
   \<and> source (connector sfkbarticles_status) = form_source (connector_form_props sf_credential)
   \<and> form_source (connector_form_props sf_credential) = ''sfkbarticles''
   \<and> sfkbarticles_status \<notin> set (SalesforceConnectorIndexingStatuses [salesforce_status, sfkbarticles_status])
   \<and> tables (MainSection (loaded [salesforce_status, sfkbarticles_status]) (loaded [sf_credential]))
       = [connectors_table_props [salesforce_status] (Some sf_credential)]
   \<and> sfkbarticles_status \<notin>
        set (connectorIndexingStatuses (connectors_table_props [salesforce_status] (Some sf_credential)))"
proof -
  have p: "connector_form_props sf_credential \<in> set (connector_forms (MainSection (loaded []) (loaded [sf_credential])))"
    by (simp add: connector_forms_sample)
  have s: "source (connector sfkbarticles_status) = form_source (connector_form_props sf_credential)"
    by (simp add: sfkbarticles_status_def connector_form_props_def)
  have t: "tables (MainSection (loaded [salesforce_status, sfkbarticles_status]) (loaded [sf_credential]))
       = [connectors_table_props [salesforce_status] (Some sf_credential)]"
    by (simp add: tables_sample SalesforceConnectorIndexingStatuses_def salesforce_status_def
        sfkbarticles_status_def)
  from C4_created_connector_excluded[OF p s,
      of "[salesforce_status, sfkbarticles_status]"
         "loaded [salesforce_status, sfkbarticles_status]" "loaded [sf_credential]"]
  show ?thesis using p s t by simp
qed

subsection \<open>Deleting the credential\<close>

text \<open>
  Claim C5, as amended. Every delete button the page renders is bound to the selected
  credential. A click whose deletion call is fulfilled makes exactly two calls, in this
  order: the backend deletion for the selected credential's id, then the credential
  re-fetch. A click whose deletion call is rejected makes the deletion call only: the
  \<open>await\<close> throws and the re-fetch is not reached.
\<close>

theorem C5_delete_then_refresh:
  assumes "h \<in> set (buttons (MainSection st cr))"
  shows "\<exists>cs c. data cr = Some cs \<and> SfKbArticlesCredential cs = Inr (Some c)
           \<and> h Fulfilled = [AdminDeleteCredential (cred_id c), RefreshCredentials]
           \<and> h Rejected = [AdminDeleteCredential (cred_id c)]"
  using buttons_MainSection[OF assms]
  by (auto simp: SfKbArticlesCredential_find delete_onClick_def await_then_def)

text \<open>The button of a render with two credentials, the second selected.\<close>

theorem C5_delete_then_refresh_witness:
  "delete_onClick sf_credential \<in> set (buttons (MainSection (loaded []) (loaded [github_credential, sf_credential])))
   \<and> SfKbArticlesCredential [github_credential, sf_credential] = Inr (Some sf_credential)
   \<and> delete_onClick sf_credential Fulfilled = [AdminDeleteCredential 7, RefreshCredentials]
   \<and> delete_onClick sf_credential Rejected = [AdminDeleteCredential 7]"
proof -
  have b: "delete_onClick sf_credential \<in> set (buttons (MainSection (loaded []) (loaded [github_credential, sf_credential])))"
    by (simp add: sample_defs MainSection_def SfKbArticlesCredential_def buttons_main_return step1_def)
  have f: "SfKbArticlesCredential [github_credential, sf_credential] = Inr (Some sf_credential)"
    by (simp add: sample_defs SfKbArticlesCredential_def)
  from C5_delete_then_refresh[OF b] f b show ?thesis
    by (auto simp: loaded_def sf_credential_def)
qed

text \<open>
  ``Every click triggers exactly one re-fetch'' fails at a click whose deletion call is
  rejected: the only call is the deletion, and the re-fetch count is 0.
\<close>

theorem C5_rejected_delete_counterexample:
  "buttons (MainSection (loaded []) (loaded [sf_credential])) = [delete_onClick sf_credential]
   \<and> delete_onClick sf_credential Rejected = [AdminDeleteCredential (cred_id sf_credential)]
   \<and> count_list (delete_onClick sf_credential Rejected) RefreshCredentials \<noteq> 1"
  by (simp add: buttons_sample delete_onClick_def await_then_def)

subsection \<open>Document-set fetch failure\<close>

text \<open>
  Claim C6. On the bot-configuration creation page, when the document-set response is not
  a success, the page returns an error callout whose message is
  \<open>"Failed to fetch document sets - "\<close> followed by the response body text, and no creation
  form, whatever \<open>fetchAssistantsSS\<close> returned.
\<close>

theorem C6_document_set_failure:
  assumes "\<not> ok r"
  shows "Page_bot_config r a =
           Inr (ErrorCallout ''Something went wrong :(''
                  (''Failed to fetch document sets - '' @ resp_text r))
         \<and> suffix (resp_text r) (''Failed to fetch document sets - '' @ resp_text r)
         \<and> creation_forms (Page_bot_config r a) = []"
  using assms
  by (cases a) (simp add: Page_bot_config_def creation_forms_def rendered_def suffix_def)

text \<open>A status 500, with the assistants fetched and with the assistants failed.\<close>

theorem C6_document_set_failure_witness:
  "\<not> ok server_error_response
   \<and> Page_bot_config server_error_response (JArr [], None) =
       Inr (ErrorCallout ''Something went wrong :(''
              ''Failed to fetch document sets - Internal Server Error'')
   \<and> Page_bot_config server_error_response (JArr [], Some ''timeout'') =
       Inr (ErrorCallout ''Something went wrong :(''
              ''Failed to fetch document sets - Internal Server Error'')
   \<and> creation_forms (Page_bot_config server_error_response (JArr [], None)) = []"
proof -
  have n: "\<not> ok server_error_response"
    by (simp add: ok_def server_error_response_def)
  have t: "resp_text server_error_response = ''Internal Server Error''"
    by (simp add: server_error_response_def)
  note w1 = C6_document_set_failure[OF n, of "(JArr [], None)", unfolded t append.simps]
  note w2 = C6_document_set_failure[OF n, of "(JArr [], Some ''timeout'')", unfolded t append.simps]
  from w1 w2 n show ?thesis by blast
qed

subsection \<open>Fetch errors on the Salesforce page\<close>

text \<open>
  Claim C7, as amended. In every state where a fetch reports an error or has no data, the
  Salesforce page renders no form and no table. When, moreover, the loading guard does not
  apply (neither fetch is still loading without data), the page is one of the two fixed
  failure messages: \<open>"Failed to load connectors"\<close> when the indexing-status fetch has an
  error or no data, \<open>"Failed to load credentials"\<close> otherwise. When the loading guard
  applies (either fetch is still loading without data), the page is the loading indicator,
  whether or not the other fetch has reported an error.
\<close>

theorem C7_failure_message:
  assumes "truthy (error st) \<or> data st = None \<or> truthy (error cr) \<or> data cr = None"
  shows "connector_forms (MainSection st cr) = []
         \<and> credential_forms (MainSection st cr) = []
         \<and> tables (MainSection st cr) = []
         \<and> (\<not> (data st = None \<and> isLoading st) \<and> \<not> (data cr = None \<and> isLoading cr) \<longrightarrow>
              MainSection st cr =
                Inr (Div [Str (if truthy (error st) \<or> data st = None
                                then ''Failed to load connectors''
                                else ''Failed to load credentials'')]))
         \<and> ((data st = None \<and> isLoading st) \<or> (data cr = None \<and> isLoading cr) \<longrightarrow>
              MainSection st cr = Inr (LoadingAnimation ''Loading''))"
  using assms by (auto simp: MainSection_def split: option.splits)

text \<open>
  A failed indexing-status fetch, a failed credentials fetch, and each fetch in flight
  next to the other one delivered or failed.
\<close>

theorem C7_failure_message_witness:
  "truthy (error (failed :: ConnectorIndexingStatus list swr))
   \<and> MainSection failed (loaded [sf_credential]) = Inr (Div [Str ''Failed to load connectors''])
   \<and> MainSection (loaded [salesforce_status]) failed = Inr (Div [Str ''Failed to load credentials''])
   \<and> connector_forms (MainSection failed (loaded [sf_credential])) = []
   \<and> credential_forms (MainSection failed (loaded [sf_credential])) = []
   \<and> tables (MainSection failed (loaded [sf_credential])) = []
   \<and> MainSection in_flight (loaded [sf_credential]) = Inr (LoadingAnimation ''Loading'')
   \<and> MainSection (loaded [salesforce_status]) in_flight = Inr (LoadingAnimation ''Loading'')
   \<and> MainSection in_flight failed = Inr (LoadingAnimation ''Loading'')"
proof -
  have e: "truthy (error (failed :: ConnectorIndexingStatus list swr))"
    by (simp add: failed_def)
  have e': "truthy (error (failed :: Credential list swr))"
    by (simp add: failed_def)
  from C7_failure_message[of failed "loaded [sf_credential]"]
       C7_failure_message[of "loaded [salesforce_status]" failed]
       C7_failure_message[of in_flight "loaded [sf_credential]"]
       C7_failure_message[of "loaded [salesforce_status]" in_flight]
       C7_failure_message[of in_flight failed] e e'
  show ?thesis by (simp add: failed_def loaded_def in_flight_def)
qed

text \<open>
  ``Renders a fixed failure message whenever a fetch reports an error'' fails while the
  other fetch is still in flight: the indexing-status fetch has failed, the credentials
  fetch is loading without data, and the page is the loading indicator.
\<close>

theorem C7_loading_first_counterexample:
  "truthy (error (failed :: ConnectorIndexingStatus list swr))
   \<and> MainSection failed in_flight = Inr (LoadingAnimation ''Loading'')
   \<and> MainSection failed in_flight \<noteq> Inr (Div [Str ''Failed to load connectors''])
   \<and> MainSection failed in_flight \<noteq> Inr (Div [Str ''Failed to load credentials''])"
  by (simp add: MainSection_def failed_def in_flight_def)

subsection \<open>The wiring of the connector form\<close>

text \<open>
  Claim C8. Whenever the connector-configuration form is rendered, a credential is
  selected, the form's \<open>credentialId\<close> is that credential's id, and its \<open>refreshFreq\<close> is
  600 seconds.
\<close>

theorem C8_form_wiring:
  assumes "p \<in> set (connector_forms (MainSection st cr))"
  shows "\<exists>cs c. data cr = Some cs \<and> SfKbArticlesCredential cs = Inr (Some c)
           \<and> credentialId p = cred_id c \<and> refreshFreq p = 600"
  using connector_forms_MainSection[OF assms]
  by (auto simp: SfKbArticlesCredential_find connector_form_props_def)

text \<open>The form of a render with two credentials, the second selected, its id 7.\<close>

theorem C8_form_wiring_witness:
  "connector_form_props sf_credential \<in>
     set (connector_forms (MainSection (loaded [web_status]) (loaded [github_credential, sf_credential])))
   \<and> SfKbArticlesCredential [github_credential, sf_credential] = Inr (Some sf_credential)
   \<and> credentialId (connector_form_props sf_credential) = 7
   \<and> refreshFreq (connector_form_props sf_credential) = 600"
proof -
  have p: "connector_form_props sf_credential \<in>
     set (connector_forms (MainSection (loaded [web_status]) (loaded [github_credential, sf_credential])))"
    by (simp add: sample_defs MainSection_def SfKbArticlesCredential_def connector_forms_main_return
        step1_def)
  have f: "SfKbArticlesCredential [github_credential, sf_credential] = Inr (Some sf_credential)"
    by (simp add: sample_defs SfKbArticlesCredential_def)
  from C8_form_wiring[OF p] f p show ?thesis
    by (auto simp: loaded_def sf_credential_def)
qed

subsection \<open>The Connectors column\<close>

text \<open>
  Claim C9. The summary table has one special column, headed \<open>"Connectors"\<close>. For every row
  of the table whose connector configuration is an object with a \<open>requested_objects\<close> list
  of strings, the column's value is those strings joined by commas.
\<close>

theorem C9_connectors_column:
  assumes "t \<in> set (tables (MainSection st cr))"
    and "row \<in> set (connectorIndexingStatuses t)"
    and "connector_specific_config (connector row) = JObj fs"
    and "map_of fs ''requested_objects'' = Some (JArr (map JStr objs))"
  shows "map header (specialColumns t) = [''Connectors'']
         \<and> map (\<lambda>col. getValue col row) (specialColumns t) = [Inr (joined_by_commas objs)]"
  using tables_MainSection[OF assms(1)] assms(3,4)
  by (auto simp: connectors_table_props_def connectors_getValue_def array_join_commas
      elements_to_strings_strings)

text \<open>The row of a connector that requests Studio and Robot.\<close>

theorem C9_connectors_column_witness:
  "connectors_table_props [salesforce_status] (Some sf_credential) \<in>
     set (tables (MainSection (loaded [web_status, salesforce_status]) (loaded [sf_credential])))
   \<and> salesforce_status \<in>
       set (connectorIndexingStatuses (connectors_table_props [salesforce_status] (Some sf_credential)))
   \<and> map header (specialColumns (connectors_table_props [salesforce_status] (Some sf_credential)))
       = [''Connectors'']
   \<and> map (\<lambda>col. getValue col salesforce_status)
        (specialColumns (connectors_table_props [salesforce_status] (Some sf_credential)))
       = [Inr ''Studio,Robot'']"
proof -
  have t: "connectors_table_props [salesforce_status] (Some sf_credential) \<in>
     set (tables (MainSection (loaded [web_status, salesforce_status]) (loaded [sf_credential])))"
    by (simp add: sample_defs MainSection_def SfKbArticlesCredential_def tables_main_return
        step1_def SalesforceConnectorIndexingStatuses_def)
  have r: "salesforce_status \<in>
       set (connectorIndexingStatuses (connectors_table_props [salesforce_status] (Some sf_credential)))"
    by (simp add: connectors_table_props_def)
  have c: "connector_specific_config (connector salesforce_status) =
             JObj [(''requested_objects'', JArr [JStr ''Studio'', JStr ''Robot''])]"
    by (simp add: salesforce_status_def)
  have m: "map_of [(''requested_objects'', JArr [JStr ''Studio'', JStr ''Robot''])] ''requested_objects''
             = Some (JArr (map JStr [''Studio'', ''Robot'']))"
    by simp
  from C9_connectors_column[OF t r c m] t r show ?thesis
    by (simp add: joined_by_commas_def)
qed

subsection \<open>Credentials without a payload\<close>

text \<open>
  Claim C10. For a credential whose \<open>credential_json\<close> is \<open>null\<close> or \<open>undefined\<close>, the
  selection predicate \<open>credential_json?.sf_username\<close> evaluates to \<open>undefined\<close>, a
  non-match, where the plain access \<open>credential_json.sf_username\<close> throws a TypeError. The
  selection skips such an entry wherever it stands in the list, never selects it, and
  returns (it does not throw) on every credential list.
\<close>

theorem C10_missing_payload_skipped:
  assumes "credential_json c = JNull \<or> credential_json c = JUndefined"
  shows "opt_member (credential_json c) ''sf_username'' = Inr JUndefined
         \<and> get_member (credential_json c) ''sf_username'' = Inl TypeError
         \<and> SfKbArticlesCredential (pre @ c # post) = SfKbArticlesCredential (pre @ post)
         \<and> SfKbArticlesCredential (pre @ c # post) \<noteq> Inr (Some c)
         \<and> (\<exists>r. SfKbArticlesCredential cs = Inr r)"
proof -
  from assms have n: "\<not> has_truthy_sf_username c"
    by (auto simp: has_truthy_sf_username_def)
  have "List.find has_truthy_sf_username (pre @ c # post) \<noteq> Some c"
    using n find_has[of has_truthy_sf_username "pre @ c # post" c] by blast
  with assms n show ?thesis
    by (auto simp: SfKbArticlesCredential_find find_skip)
qed

text \<open>A list with a \<open>null\<close> payload and an \<open>undefined\<close> payload before the match.\<close>

theorem C10_missing_payload_skipped_witness:
  "credential_json null_credential = JNull
   \<and> credential_json undefined_credential = JUndefined
   \<and> opt_member (credential_json null_credential) ''sf_username'' = Inr JUndefined
   \<and> opt_member (credential_json undefined_credential) ''sf_username'' = Inr JUndefined
   \<and> SfKbArticlesCredential [github_credential, null_credential, undefined_credential, sf_credential]
       = Inr (Some sf_credential)"
proof -
  have a: "credential_json null_credential = JNull \<or> credential_json null_credential = JUndefined"
    by (simp add: null_credential_def)
  have b: "credential_json undefined_credential = JNull \<or> credential_json undefined_credential = JUndefined"
    by (simp add: undefined_credential_def)
  have f: "SfKbArticlesCredential [github_credential, sf_credential] = Inr (Some sf_credential)"
    by (simp add: sample_defs SfKbArticlesCredential_def)
  from C10_missing_payload_skipped[OF a, of "[github_credential]" "[undefined_credential, sf_credential]" "[]"]
       C10_missing_payload_skipped[OF b, of "[github_credential]" "[sf_credential]" "[]"] f
  show ?thesis
    by (simp add: null_credential_def undefined_credential_def)
qed

end
